theory Spec2Isabelle
  imports Complex_Main "HOL-Library.Multiset"
begin

section \<open>Sparse matrices\<close>

text \<open>
  The recommenders of \<^verbatim>\<open>similarity_recommenders.py\<close> work on scipy sparse matrices. A
  matrix has a shape and a set of stored positions, each holding a value; a position that
  is not stored reads as zero. A stored value may itself be zero (an explicit zero), and
  \<^verbatim>\<open>m.data\<close> is the array of all stored values, explicit zeros included.

  A cell is \<open>None\<close> when the position is not stored and \<open>Some v\<close> when it stores \<open>v\<close>.
  Stored values are real numbers: rounding, the downcast to 32-bit floats, infinities and
  NaN are outside this model.
\<close>

record spmatrix =
  nrows :: nat
  ncols :: nat
  cell :: "nat \<Rightarrow> nat \<Rightarrow> real option"

definition val :: "spmatrix \<Rightarrow> nat \<Rightarrow> nat \<Rightarrow> real" where
  \<comment> \<open>the value read at a position, \<^verbatim>\<open>m[i, j]\<close>\<close>
  "val m i j = (case cell m i j of None \<Rightarrow> 0 | Some v \<Rightarrow> v)"

definition data :: "spmatrix \<Rightarrow> real list" where
  \<comment> \<open>\<^verbatim>\<open>m.data\<close>: the stored values (row by row; the source only uses its length,
      minimum, sum, percentiles and elementwise updates)\<close>
  "data m = concat (map (\<lambda>i. List.map_filter (\<lambda>j. cell m i j) [0..<ncols m]) [0..<nrows m])"

definition map_data :: "(real \<Rightarrow> real) \<Rightarrow> spmatrix \<Rightarrow> spmatrix" where
  \<comment> \<open>an elementwise update of \<^verbatim>\<open>m.data\<close>; the stored positions stay as they are\<close>
  "map_data f m = m\<lparr>cell := \<lambda>i j. map_option f (cell m i j)\<rparr>"

definition transpose_sp :: "spmatrix \<Rightarrow> spmatrix" where
  \<comment> \<open>\<^verbatim>\<open>m.T\<close>\<close>
  "transpose_sp m = \<lparr>nrows = ncols m, ncols = nrows m, cell = \<lambda>i j. cell m j i\<rparr>"

definition matmul :: "spmatrix \<Rightarrow> spmatrix \<Rightarrow> spmatrix" where
  \<comment> \<open>\<^verbatim>\<open>a * b\<close> on sparse matrices is the matrix product; scipy stores the nonzero
      results only. Every product of the source has operands of matching inner dimension.\<close>
  "matmul a b =
     \<lparr>nrows = nrows a, ncols = ncols b,
      cell = \<lambda>i j. let s = (\<Sum>k<ncols a. val a i k * val b k j)
                   in if i < nrows a \<and> j < ncols b \<and> s \<noteq> 0 then Some s else None\<rparr>"

definition add_mat :: "spmatrix \<Rightarrow> spmatrix \<Rightarrow> spmatrix" where
  \<comment> \<open>\<^verbatim>\<open>a += b\<close> on sparse matrices builds the sum \<^verbatim>\<open>a + b\<close>; scipy stores the nonzero
      results only. Every sum of the source has operands of the same shape.\<close>
  "add_mat a b =
     \<lparr>nrows = nrows a, ncols = ncols a,
      cell = \<lambda>i j. if cell a i j = None \<and> cell b i j = None then None
                   else let s = val a i j + val b i j in if s = 0 then None else Some s\<rparr>"

definition scale_mat :: "real \<Rightarrow> spmatrix \<Rightarrow> spmatrix" where
  \<comment> \<open>\<^verbatim>\<open>c * m\<close> for a scalar \<^verbatim>\<open>c\<close>: every stored value is multiplied\<close>
  "scale_mat c m = map_data (\<lambda>v. c * v) m"

definition setdiag0 :: "spmatrix \<Rightarrow> spmatrix" where
  \<comment> \<open>\<^verbatim>\<open>m.setdiag(0)\<close>: every diagonal position becomes a stored (explicit) zero\<close>
  "setdiag0 m = m\<lparr>cell := \<lambda>i j. if i = j \<and> i < min (nrows m) (ncols m) then Some 0 else cell m i j\<rparr>"

definition eliminate_zeros :: "spmatrix \<Rightarrow> spmatrix" where
  \<comment> \<open>\<^verbatim>\<open>m.eliminate_zeros()\<close>: stored zeros are removed from storage\<close>
  "eliminate_zeros m = m\<lparr>cell := \<lambda>i j. if cell m i j = Some 0 then None else cell m i j\<rparr>"

definition astype_float32 :: "spmatrix \<Rightarrow> spmatrix" where
  \<comment> \<open>\<^verbatim>\<open>m.astype(np.float32)\<close>: the rounding is not modelled\<close>
  "astype_float32 m = m"

definition row_abs_sum :: "spmatrix \<Rightarrow> nat \<Rightarrow> real" where
  "row_abs_sum m i = (\<Sum>j<ncols m. \<bar>val m i j\<bar>)"

definition row_sum :: "spmatrix \<Rightarrow> nat \<Rightarrow> real" where
  "row_sum m i = (\<Sum>j<ncols m. val m i j)"

definition normalize_l1 :: "spmatrix \<Rightarrow> spmatrix" where
  \<comment> \<open>\<^verbatim>\<open>sklearn.preprocessing.normalize(m, norm='l1', axis=1)\<close>: a new matrix whose
      rows are divided by the sum of their absolute values; a row where that sum is zero
      is skipped\<close>
  "normalize_l1 m =
     m\<lparr>cell := \<lambda>i j. if row_abs_sum m i = 0 then cell m i j
                       else map_option (\<lambda>v. v / row_abs_sum m i) (cell m i j)\<rparr>"

definition stored_nonneg :: "spmatrix \<Rightarrow> bool" where
  \<comment> \<open>no stored value is negative\<close>
  "stored_nonneg m = (\<forall>i j v. cell m i j = Some v \<longrightarrow> 0 \<le> v)"

section \<open>Errors\<close>

text \<open>
  An exception of the source is a value: a function that can raise returns \<open>Inl\<close> of the
  error. A method that assigns attributes of its object, or data of its argument, returns
  the object as the call leaves it next to its outcome, also when it raises. Counts and
  indices are natural numbers.
\<close>

datatype error =
    ValueError string
  | IndexError
  | AttributeError
  | TypeError
  | NotImplementedError

section \<open>Pruning\<close>

definition percentile :: "real list \<Rightarrow> int \<Rightarrow> error + real option" where
  \<comment> \<open>\<^verbatim>\<open>np.percentile(a, q)\<close>, linear interpolation between the two nearest ranks;
      a \<open>q\<close> outside 0..100 raises, an empty sample gives NaN (\<open>None\<close>)\<close>
  "percentile a q =
     (if q < 0 \<or> 100 < q then Inl (ValueError ''Percentiles must be in the range [0, 100]'')
      else if a = [] then Inr None
      else let s = sort a;
               pos = real_of_int q / 100 * real (length a - 1);
               lo = nat \<lfloor>pos\<rfloor>;
               hi = min (lo + 1) (length a - 1)
           in Inr (Some (s ! lo + (pos - real lo) * (s ! hi - s ! lo))))"

type_synonym choice = "real list \<Rightarrow> nat \<Rightarrow> real list"
  \<comment> \<open>\<^verbatim>\<open>np.random.choice(a, size, replace=False)\<close>: the random draw is a parameter\<close>

definition threshold :: "spmatrix \<Rightarrow> real \<Rightarrow> spmatrix" where
  \<comment> \<open>\<^verbatim>\<open>m.data[m.data < cutoff] *= 0; m.eliminate_zeros()\<close>\<close>
  "threshold m cutoff = eliminate_zeros (map_data (\<lambda>v. if v < cutoff then v * 0 else v) m)"

definition prune_mat :: "choice \<Rightarrow> spmatrix \<Rightarrow> real \<Rightarrow> real \<Rightarrow> error + spmatrix" where
  "prune_mat choice m ratio cutoff =
     (if (ratio = 0 \<and> cutoff = 0) \<or> length (data m) = 0 then Inr m
      else if ratio > 0 then
        (let data_sample =
               (if length (data m) > 50000
                then choice (data m) (min (length (data m)) 10000)
                else data m)
         in case percentile data_sample \<lfloor>100 * ratio\<rfloor> of
              Inl e \<Rightarrow> Inl e
            | Inr None \<Rightarrow> Inr (threshold m cutoff)
            | Inr (Some pc) \<Rightarrow> Inr (threshold m (max cutoff pc)))
      else Inr (threshold m cutoff))"

section \<open>The co-occurrence builder\<close>

record fit_params =
  normalize_items :: bool
  degree :: int
  base_min_cooccurrence :: real
  prune_ratio :: real
  decay :: real
  min_cooccurrence :: real
  trans_func :: string

definition apply_trans_func :: "string \<Rightarrow> spmatrix \<Rightarrow> error + spmatrix" where
  \<comment> \<open>the \<^verbatim>\<open>if / elif / else\<close> chain that opens \<^verbatim>\<open>first_degree_cooccurrence\<close>; each
      branch assigns \<^verbatim>\<open>mat.data\<close>, so the result is the argument object after the call\<close>
  "apply_trans_func tf mat =
     (if tf = ''ones'' then Inr (map_data (\<lambda>v. 1) mat)
      else if tf = ''log'' then Inr (map_data (\<lambda>v. log 10 (v + 1)) mat)
      else if tf = ''none'' then Inr mat
      else Inl (ValueError (''Unknown trans_func: '' @ tf)))"

definition trans_func_result :: "string \<Rightarrow> spmatrix \<Rightarrow> spmatrix" where
  \<comment> \<open>the argument \<^verbatim>\<open>mat\<close> when \<^verbatim>\<open>first_degree_cooccurrence\<close> has returned or raised:
      its data as the branch taken has assigned it\<close>
  "trans_func_result tf mat =
     (if tf = ''ones'' then map_data (\<lambda>v. 1) mat
      else if tf = ''log'' then map_data (\<lambda>v. log 10 (v + 1)) mat
      else mat)"

definition first_degree_cooccurrence ::
  "choice \<Rightarrow> string \<Rightarrow> spmatrix \<Rightarrow> real \<Rightarrow> (error + spmatrix) \<times> spmatrix" where
  \<comment> \<open>returns the outcome and the argument \<^verbatim>\<open>mat\<close> as the call leaves it\<close>
  "first_degree_cooccurrence choice tf mat min_cooc =
     (case apply_trans_func tf mat of
        Inl e \<Rightarrow> (Inl e, mat)
      | Inr mat' \<Rightarrow>
          (let cooc_mat = astype_float32 (setdiag0 (matmul (transpose_sp mat') mat'))
           in (if min_cooc > 1 then prune_mat choice cooc_mat 0 min_cooc else Inr cooc_mat, mat')))"

definition higher_deg_step :: "real \<Rightarrow> nat \<Rightarrow> spmatrix \<Rightarrow> spmatrix" where
  \<comment> \<open>one round of the loop over \<^verbatim>\<open>range(degree - 1)\<close>\<close>
  "higher_deg_step dec i h = setdiag0 (add_mat h (matmul (scale_mat (dec ^ (i + 1)) h) h))"

definition higher_deg_cooc :: "choice \<Rightarrow> spmatrix \<Rightarrow> fit_params \<Rightarrow> error + spmatrix" where
  \<comment> \<open>the working matrix \<^verbatim>\<open>higher_deg_cooc\<close> when the loop has ended, before it is rescaled\<close>
  "higher_deg_cooc choice cooc_mat_base p =
     (case prune_mat choice cooc_mat_base (prune_ratio p) (min_cooccurrence p) of
        Inl e \<Rightarrow> Inl e
      | Inr h \<Rightarrow> Inr (fold (higher_deg_step (decay p)) [0..<nat (degree p - 1)] h))"

definition rescale :: "real \<Rightarrow> spmatrix \<Rightarrow> spmatrix" where
  \<comment> \<open>\<^verbatim>\<open>h.data *= total_weight / (np.sum(h.data) + 1)\<close>. Where the sum is \<open>-1\<close> numpy
      divides by zero (infinities and NaN), HOL gives \<open>0\<close>: the theorems below that
      depend on this quotient assume the sum is not \<open>-1\<close>.\<close>
  "rescale total_weight h = map_data (\<lambda>v. v * (total_weight / (sum_list (data h) + 1))) h"

definition higher_deg_rescaled :: "choice \<Rightarrow> spmatrix \<Rightarrow> fit_params \<Rightarrow> error + spmatrix" where
  \<comment> \<open>the working matrix after the rescaling step, as it is added into the base matrix\<close>
  "higher_deg_rescaled choice cooc_mat_base p =
     (let total_weight = sum_list (data cooc_mat_base)
      in case higher_deg_cooc choice cooc_mat_base p of
           Inl e \<Rightarrow> Inl e
         | Inr h \<Rightarrow> Inr (rescale total_weight h))"

definition interactions_mat_to_cooccurrence_mat ::
  "choice \<Rightarrow> spmatrix \<Rightarrow> fit_params \<Rightarrow> (error + spmatrix) \<times> spmatrix" where
  \<comment> \<open>returns the outcome and the argument \<^verbatim>\<open>obs_mat\<close> as the call leaves it\<close>
  "interactions_mat_to_cooccurrence_mat choice obs_mat p =
     (case first_degree_cooccurrence choice (trans_func p) obs_mat (base_min_cooccurrence p) of
        (Inl e, obs_mat') \<Rightarrow> (Inl e, obs_mat')
      | (Inr cooc_mat_base, obs_mat') \<Rightarrow>
          (case (if degree p > 1
                 then (case higher_deg_rescaled choice cooc_mat_base p of
                         Inl e \<Rightarrow> Inl e
                       | Inr h \<Rightarrow> Inr (add_mat cooc_mat_base h))
                 else Inr cooc_mat_base) of
             Inl e \<Rightarrow> (Inl e, obs_mat')
           | Inr c \<Rightarrow> (Inr (if normalize_items p then normalize_l1 c else c), obs_mat')))"

section \<open>The recommenders\<close>

record recommender =
  fit_params :: fit_params
  train_mat :: "spmatrix option"
  similarity_mat :: "spmatrix option"

definition prep_for_fit :: "(fit_params \<Rightarrow> fit_params) \<Rightarrow> recommender \<Rightarrow> spmatrix \<Rightarrow> recommender" where
  \<comment> \<open>\<^verbatim>\<open>_prep_for_fit\<close>. The base class method \<^verbatim>\<open>_set_fit_params\<close> is not part of the
      sources at hand: its effect on the parameters is the argument \<open>set_fit_params\<close>. The
      interaction matrix built by the matrix helper is the argument \<open>train\<close>.\<close>
  "prep_for_fit set_fit_params r train =
     r\<lparr>fit_params := set_fit_params (fit_params r), train_mat := Some train\<rparr>"

definition ItemCoocRecommender_fit ::
  "choice \<Rightarrow> (fit_params \<Rightarrow> fit_params) \<Rightarrow> recommender \<Rightarrow> spmatrix \<Rightarrow> error option \<times> recommender" where
  \<comment> \<open>the builder is given \<^verbatim>\<open>self.train_mat\<close> itself, so what it assigns to the data of
      its argument is assigned to the stored train matrix\<close>
  "ItemCoocRecommender_fit choice set_fit_params r train =
     (let r1 = prep_for_fit set_fit_params r train
      in case interactions_mat_to_cooccurrence_mat choice train (fit_params r1) of
           (Inl e, train') \<Rightarrow> (Some e, r1\<lparr>train_mat := Some train'\<rparr>)
         | (Inr c, train') \<Rightarrow>
             (None, r1\<lparr>train_mat := Some train', similarity_mat := Some (add_mat c (transpose_sp c))\<rparr>))"

definition UserCoocRecommender_fit ::
  "choice \<Rightarrow> (fit_params \<Rightarrow> fit_params) \<Rightarrow> recommender \<Rightarrow> spmatrix \<Rightarrow> error option \<times> recommender" where
  \<comment> \<open>the builder is given the new object \<^verbatim>\<open>self.train_mat.T\<close>; assigning that object's
      data leaves the stored train matrix as it was\<close>
  "UserCoocRecommender_fit choice set_fit_params r train =
     (let r1 = prep_for_fit set_fit_params r train
      in case interactions_mat_to_cooccurrence_mat choice (transpose_sp train) (fit_params r1) of
           (Inl e, _) \<Rightarrow> (Some e, r1)
         | (Inr c, _) \<Rightarrow> (None, r1\<lparr>similarity_mat := Some c\<rparr>))"

subsection \<open>Floating-point arithmetic\<close>





subsection \<open>The no-negatives shift\<close>



subsection \<open>Top-K ranking\<close>

text \<open>
  \<^verbatim>\<open>np.argpartition\<close> and \<^verbatim>\<open>np.argsort\<close> are parameters of the model: numpy fixes what
  they return up to the order of equal elements only. \<open>is_argpartition\<close> and \<open>is_argsort\<close>
  are their contracts: a permutation of the indices that puts the element of rank \<open>kth\<close>
  in its place, smaller ones before and larger ones behind it, and a permutation of the
  indices that sorts the values in ascending order.
\<close>

type_synonym argpartition = "real list \<Rightarrow> nat \<Rightarrow> nat list"
type_synonym argsort = "real list \<Rightarrow> nat list"

definition is_index_perm :: "nat \<Rightarrow> nat list \<Rightarrow> bool" where
  "is_index_perm n p = (length p = n \<and> distinct p \<and> list_all (\<lambda>i. i < n) p)"

definition is_argpartition :: "real list \<Rightarrow> nat \<Rightarrow> nat list \<Rightarrow> bool" where
  "is_argpartition a kth p =
     (is_index_perm (length a) p \<and>
      list_all (\<lambda>i. (i < kth \<longrightarrow> a ! (p ! i) \<le> a ! (p ! kth)) \<and>
                    (kth < i \<longrightarrow> a ! (p ! kth) \<le> a ! (p ! i))) [0..<length a])"

definition is_argsort :: "real list \<Rightarrow> nat list \<Rightarrow> bool" where
  "is_argsort a p = (is_index_perm (length a) p \<and> sorted (map (\<lambda>i. a ! i) p))"

definition argsort_by_sort :: argsort where
  \<comment> \<open>one function that meets the contract of \<^verbatim>\<open>np.argsort\<close>: a stable sort of the indices\<close>
  "argsort_by_sort a = sort_key (\<lambda>i. a ! i) [0..<length a]"

definition argpartition_by_sort :: argpartition where
  \<comment> \<open>one function that meets the contract of \<^verbatim>\<open>np.argpartition\<close>: a full sort\<close>
  "argpartition_by_sort a kth = argsort_by_sort a"

definition argpartition_neg :: "argpartition \<Rightarrow> real list \<Rightarrow> nat \<Rightarrow> error + nat list" where
  \<comment> \<open>\<^verbatim>\<open>np.argpartition(a, -n)\<close>: numpy adds the length to a negative \<open>kth\<close> and raises
      when the result is out of bounds, unless the array is empty\<close>
  "argpartition_neg ap a n =
     (let kth = (if n = 0 then 0 else int (length a) - int n)
      in if a \<noteq> [] \<and> (kth < 0 \<or> int (length a) \<le> kth)
         then Inl (ValueError ''kth out of bounds'')
         else Inr (ap a (nat kth)))"

definition slice_last :: "'a list \<Rightarrow> nat \<Rightarrow> 'a list" where
  \<comment> \<open>the Python slice \<^verbatim>\<open>xs[-n:]\<close>; \<^verbatim>\<open>xs[-0:]\<close> is the whole list\<close>
  "slice_last xs n = (if n = 0 then xs else drop (length xs - n) xs)"

definition partition_sort ::
  "argpartition \<Rightarrow> argsort \<Rightarrow> real list \<Rightarrow> nat \<Rightarrow> error + nat list \<times> real list" where
  \<comment> \<open>the two lines \<^verbatim>\<open>i_part = ...; i_sort = ...\<close> and the returned pair, as both ranking
      functions of the source have them; an index out of range raises\<close>
  "partition_sort ap as a n =
     (case argpartition_neg ap a n of
        Inl e \<Rightarrow> Inl e
      | Inr p \<Rightarrow>
          (let i_part = slice_last p n
           in if \<exists>i\<in>set i_part. length a \<le> i then Inl IndexError
              else let order = take n (as (map (\<lambda>i. - (a ! i)) i_part))
                   in if \<exists>q\<in>set order. length i_part \<le> q then Inl IndexError
                      else let i_sort = map (\<lambda>q. i_part ! q) order
                           in Inr (i_sort, map (\<lambda>i. a ! i) i_sort)))"

definition column_sums :: "spmatrix \<Rightarrow> nat list \<Rightarrow> real list" where
  \<comment> \<open>\<^verbatim>\<open>np.array(np.sum(sub_mat, axis=0)).ravel()\<close> for the rows \<open>inds\<close> of the matrix\<close>
  "column_sums m inds = map (\<lambda>j. \<Sum>i\<leftarrow>inds. val m i j) [0..<ncols m]"

definition zero_at :: "nat list \<Rightarrow> real list \<Rightarrow> real list" where
  \<comment> \<open>\<^verbatim>\<open>a[inds] *= 0\<close> for indices in range\<close>
  "zero_at inds a = map (\<lambda>j. if j \<in> set inds then a ! j * 0 else a ! j) [0..<length a]"

definition sum_simils_of :: "spmatrix \<Rightarrow> nat list \<Rightarrow> bool \<Rightarrow> real list" where
  \<comment> \<open>the score vector \<^verbatim>\<open>sum_simils\<close> that \<^verbatim>\<open>_recommend_for_item_inds\<close> ranks\<close>
  "sum_simils_of s item_inds remove_self =
     (if remove_self then zero_at item_inds (column_sums s item_inds) else column_sums s item_inds)"

definition recommend_for_item_inds ::
  "argpartition \<Rightarrow> argsort \<Rightarrow> spmatrix \<Rightarrow> nat list \<Rightarrow> nat \<Rightarrow> bool \<Rightarrow> error + nat list \<times> real list" where
  "recommend_for_item_inds ap as s item_inds n_rec_unfilt remove_self =
     (if \<exists>i\<in>set item_inds. nrows s \<le> i then Inl IndexError
      else if remove_self \<and> (\<exists>i\<in>set item_inds. ncols s \<le> i) then Inl IndexError
      else let sum_simils = sum_simils_of s item_inds remove_self;
               n_rec = min n_rec_unfilt (length sum_simils)
           in partition_sort ap as sum_simils n_rec)"

subsection \<open>Queries\<close>









definition UserCooc_get_similar_items :: "recommender \<Rightarrow> 'id list \<Rightarrow> nat \<Rightarrow> (error + 'res) \<times> recommender" where
  "UserCooc_get_similar_items r itemids N = (Inl NotImplementedError, r)"

definition UserCooc_recommend_for_interaction_history ::
  "recommender \<Rightarrow> 'id list \<Rightarrow> nat \<Rightarrow> (error + 'id list \<times> real list) \<times> recommender" where
  "UserCooc_recommend_for_interaction_history r interactions_ids n_rec = (Inl NotImplementedError, r)"

section \<open>Example inputs\<close>

definition sp_of_rows :: "nat \<Rightarrow> real option list list \<Rightarrow> spmatrix" where
  \<comment> \<open>a matrix with \<open>n\<close> columns written row by row, \<open>None\<close> for a position not stored\<close>
  "sp_of_rows n rows =
     \<lparr>nrows = length rows, ncols = n,
      cell = \<lambda>i j. if i < length rows \<and> j < n \<and> j < length (rows ! i) then rows ! i ! j else None\<rparr>"

definition first_n :: choice where
  \<comment> \<open>a draw that takes the first \<open>n\<close> values\<close>
  "first_n a n = take n a"

definition obs_one_user :: spmatrix where
  \<comment> \<open>one user who interacted with both of two items\<close>
  "obs_one_user = sp_of_rows 2 [[Some 1, Some 1]]"

definition obs_weight_two :: spmatrix where
  \<comment> \<open>one user, one item, interaction weight 2\<close>
  "obs_weight_two = sp_of_rows 1 [[Some 2]]"

definition params_degree_one :: fit_params where
  "params_degree_one =
     \<lparr>normalize_items = False, degree = 1, base_min_cooccurrence = 1, prune_ratio = 0,
      decay = 0.5, min_cooccurrence = 1, trans_func = ''ones''\<rparr>"


definition params_sqrt :: fit_params where
  "params_sqrt = params_degree_one\<lparr>trans_func := ''sqrt''\<rparr>"

definition new_recommender :: "fit_params \<Rightarrow> recommender" where
  \<comment> \<open>a recommender as \<^verbatim>\<open>__init__\<close> leaves it: no train matrix, \<^verbatim>\<open>similarity_mat = None\<close>\<close>
  "new_recommender p = \<lparr>fit_params = p, train_mat = None, similarity_mat = None\<rparr>"


definition diag_zero :: spmatrix where
  \<comment> \<open>one item whose only stored value is the explicit zero that \<^verbatim>\<open>setdiag(0)\<close> leaves\<close>
  "diag_zero = sp_of_rows 1 [[Some 0]]"

definition sim_three :: spmatrix where
  \<comment> \<open>a symmetric similarity matrix over three items\<close>
  "sim_three = sp_of_rows 3 [[None, Some 1, Some 2], [Some 1, None, Some 3], [Some 2, Some 3, None]]"

definition cooc_one_user :: spmatrix where
  \<comment> \<open>the first-degree co-occurrence matrix of \<open>obs_one_user\<close>: explicit zeros on the diagonal\<close>
  "cooc_one_user = sp_of_rows 2 [[Some 0, Some 1], [Some 1, Some 0]]"

definition obs_idle_item :: spmatrix where
  \<comment> \<open>one user who interacted with two of three items\<close>
  "obs_idle_item = sp_of_rows 3 [[Some 1, Some 1, None]]"

definition params_normalize :: fit_params where
  "params_normalize = params_degree_one\<lparr>normalize_items := True\<rparr>"









definition obs_three_items :: spmatrix where
  \<comment> \<open>one user who interacted with all of three items\<close>
  "obs_three_items = sp_of_rows 3 [[Some 1, Some 1, Some 1]]"

definition cooc_three :: spmatrix where
  \<comment> \<open>the first-degree co-occurrence matrix of \<open>obs_three_items\<close>\<close>
  "cooc_three = sp_of_rows 3 [[Some 0, Some 1, Some 1], [Some 1, Some 0, Some 1], [Some 1, Some 1, Some 0]]"

definition params_negative_decay :: fit_params where
  "params_negative_decay =
     \<lparr>normalize_items = True, degree = 2, base_min_cooccurrence = 1, prune_ratio = 0,
      decay = - 1.1, min_cooccurrence = 1, trans_func = ''ones''\<rparr>"

section \<open>Evaluation rules\<close>

lemmas sp_eval =
  data_def sp_of_rows_def upt_rec val_def map_data_def
  transpose_sp_def matmul_def add_mat_def scale_mat_def setdiag0_def eliminate_zeros_def
  astype_float32_def threshold_def prune_mat_def apply_trans_func_def
  first_degree_cooccurrence_def higher_deg_step_def higher_deg_cooc_def rescale_def
  higher_deg_rescaled_def interactions_mat_to_cooccurrence_mat_def Let_def lessThan_Suc
  eval_nat_numeral

section \<open>The transform check of the builder\<close>

lemma first_degree_choice:
  "first_degree_cooccurrence choice' tf mat mc = first_degree_cooccurrence choice tf mat mc"
  by (simp add: first_degree_cooccurrence_def prune_mat_def Let_def split: sum.splits)

lemma apply_trans_func_error:
  "(apply_trans_func tf mat = Inl e) =
     (tf \<notin> {''ones'', ''log'', ''none''} \<and> e = ValueError (''Unknown trans_func: '' @ tf))"
  by (auto simp: apply_trans_func_def)

lemma prune_mat_not_unknown:
  "prune_mat choice m ratio cutoff \<noteq> Inl (ValueError (''Unknown trans_func: '' @ tf))"
  by (simp add: prune_mat_def percentile_def Let_def split: sum.splits option.splits)

lemma first_degree_unknown:
  "(fst (first_degree_cooccurrence choice tf mat mc) = Inl (ValueError (''Unknown trans_func: '' @ tf)))
   = (tf \<notin> {''ones'', ''log'', ''none''})"
proof (cases "apply_trans_func tf mat")
  case (Inl e)
  then show ?thesis
    using apply_trans_func_error[of tf mat e]
    by (simp add: first_degree_cooccurrence_def)
next
  case (Inr mat')
  then have "tf \<in> {''ones'', ''log'', ''none''}"
    using apply_trans_func_error[of tf mat "ValueError (''Unknown trans_func: '' @ tf)"] by auto
  then show ?thesis
    using Inr prune_mat_not_unknown[of choice _ 0 mc tf]
    by (simp add: first_degree_cooccurrence_def Let_def)
qed

lemma first_degree_unknown_result:
  "tf \<notin> {''ones'', ''log'', ''none''} \<Longrightarrow>
   first_degree_cooccurrence choice tf mat mc = (Inl (ValueError (''Unknown trans_func: '' @ tf)), mat)"
  by (simp add: first_degree_cooccurrence_def apply_trans_func_def)

lemma builder_unknown_result:
  "trans_func p \<notin> {''ones'', ''log'', ''none''} \<Longrightarrow>
   interactions_mat_to_cooccurrence_mat choice obs_mat p
     = (Inl (ValueError (''Unknown trans_func: '' @ trans_func p)), obs_mat)"
  by (simp add: interactions_mat_to_cooccurrence_mat_def first_degree_unknown_result)

lemma builder_unknown_trans_func:
  "(fst (interactions_mat_to_cooccurrence_mat choice obs_mat p)
      = Inl (ValueError (''Unknown trans_func: '' @ trans_func p)))
   = (trans_func p \<notin> {''ones'', ''log'', ''none''})"
proof -
  obtain res m' where fd:
    "first_degree_cooccurrence choice (trans_func p) obs_mat (base_min_cooccurrence p) = (res, m')"
    by (cases "first_degree_cooccurrence choice (trans_func p) obs_mat (base_min_cooccurrence p)")
  show ?thesis
  proof (cases res)
    case (Inl e)
    then show ?thesis
      using fd first_degree_unknown[of choice "trans_func p" obs_mat "base_min_cooccurrence p"]
      by (simp add: interactions_mat_to_cooccurrence_mat_def)
  next
    case (Inr c)
    then have ok: "trans_func p \<in> {''ones'', ''log'', ''none''}"
      using fd first_degree_unknown[of choice "trans_func p" obs_mat "base_min_cooccurrence p"]
      by auto
    have "fst (interactions_mat_to_cooccurrence_mat choice obs_mat p)
            \<noteq> Inl (ValueError (''Unknown trans_func: '' @ trans_func p))"
      using fd Inr prune_mat_not_unknown[of choice c "prune_ratio p" "min_cooccurrence p" "trans_func p"]
      by (auto simp: interactions_mat_to_cooccurrence_mat_def higher_deg_rescaled_def
          higher_deg_cooc_def split: sum.splits)
    with ok show ?thesis by simp
  qed
qed

text \<open>
  Claim C9. The builder fails with the error for an unknown transform exactly when
  \<open>trans_func\<close> is none of \<open>ones\<close>, \<open>log\<close>, \<open>none\<close>. The error is raised before any matrix
  is built: the argument matrix is as it was, and a fit that is aborted this way (of the
  item or of the user recommender) leaves the attribute \<open>similarity_mat\<close> as it was before
  the call.
\<close>

theorem C9_unknown_trans_func:
  "((fst (interactions_mat_to_cooccurrence_mat choice obs_mat p)
       = Inl (ValueError (''Unknown trans_func: '' @ trans_func p)))
     = (trans_func p \<notin> {''ones'', ''log'', ''none''}))
   \<and> (trans_func p \<notin> {''ones'', ''log'', ''none''} \<longrightarrow>
        snd (interactions_mat_to_cooccurrence_mat choice obs_mat p) = obs_mat)
   \<and> (trans_func (set_fit_params (fit_params r)) \<notin> {''ones'', ''log'', ''none''} \<longrightarrow>
        fst (ItemCoocRecommender_fit choice set_fit_params r train)
          = Some (ValueError (''Unknown trans_func: '' @ trans_func (set_fit_params (fit_params r))))
        \<and> similarity_mat (snd (ItemCoocRecommender_fit choice set_fit_params r train))
          = similarity_mat r
        \<and> fst (UserCoocRecommender_fit choice set_fit_params r train)
          = Some (ValueError (''Unknown trans_func: '' @ trans_func (set_fit_params (fit_params r))))
        \<and> similarity_mat (snd (UserCoocRecommender_fit choice set_fit_params r train))
          = similarity_mat r)"
proof (intro conjI impI)
  show "(fst (interactions_mat_to_cooccurrence_mat choice obs_mat p)
       = Inl (ValueError (''Unknown trans_func: '' @ trans_func p)))
     = (trans_func p \<notin> {''ones'', ''log'', ''none''})"
    by (rule builder_unknown_trans_func)
next
  assume "trans_func p \<notin> {''ones'', ''log'', ''none''}"
  then show "snd (interactions_mat_to_cooccurrence_mat choice obs_mat p) = obs_mat"
    by (simp add: builder_unknown_result)
next
  assume bad: "trans_func (set_fit_params (fit_params r)) \<notin> {''ones'', ''log'', ''none''}"
  let ?p = "set_fit_params (fit_params r)"
  have b1: "interactions_mat_to_cooccurrence_mat choice train ?p
          = (Inl (ValueError (''Unknown trans_func: '' @ trans_func ?p)), train)"
    using bad by (rule builder_unknown_result)
  have b2: "interactions_mat_to_cooccurrence_mat choice (transpose_sp train) ?p
          = (Inl (ValueError (''Unknown trans_func: '' @ trans_func ?p)), transpose_sp train)"
    using bad by (rule builder_unknown_result)
  show "fst (ItemCoocRecommender_fit choice set_fit_params r train)
          = Some (ValueError (''Unknown trans_func: '' @ trans_func ?p))"
    using b1 by (simp add: ItemCoocRecommender_fit_def prep_for_fit_def)
  show "similarity_mat (snd (ItemCoocRecommender_fit choice set_fit_params r train)) = similarity_mat r"
    using b1 by (simp add: ItemCoocRecommender_fit_def prep_for_fit_def)
  show "fst (UserCoocRecommender_fit choice set_fit_params r train)
          = Some (ValueError (''Unknown trans_func: '' @ trans_func ?p))"
    using b2 by (simp add: UserCoocRecommender_fit_def prep_for_fit_def)
  show "similarity_mat (snd (UserCoocRecommender_fit choice set_fit_params r train)) = similarity_mat r"
    using b2 by (simp add: UserCoocRecommender_fit_def prep_for_fit_def)
qed

theorem C9_unknown_trans_func_witness:
  "fst (interactions_mat_to_cooccurrence_mat first_n obs_one_user params_sqrt)
     = Inl (ValueError ''Unknown trans_func: sqrt'')
   \<and> snd (interactions_mat_to_cooccurrence_mat first_n obs_one_user params_sqrt) = obs_one_user
   \<and> fst (ItemCoocRecommender_fit first_n id (new_recommender params_sqrt) obs_one_user)
     = Some (ValueError ''Unknown trans_func: sqrt'')
   \<and> similarity_mat (snd (ItemCoocRecommender_fit first_n id (new_recommender params_sqrt) obs_one_user))
     = None
   \<and> fst (interactions_mat_to_cooccurrence_mat first_n obs_one_user params_degree_one)
     \<noteq> Inl (ValueError ''Unknown trans_func: ones'')"
  using C9_unknown_trans_func[of first_n obs_one_user params_sqrt id "new_recommender params_sqrt" obs_one_user]
    C9_unknown_trans_func[of first_n obs_one_user params_degree_one id "new_recommender params_sqrt" obs_one_user]
  by (simp add: params_sqrt_def params_degree_one_def new_recommender_def)

section \<open>Parameters that only matter above degree one\<close>

text \<open>
  Claim C10. At \<open>degree = 1\<close> two runs of the builder on the same interaction matrix whose
  configurations differ in \<open>prune_ratio\<close>, \<open>decay\<close> and \<open>min_cooccurrence\<close> only give the
  same outcome (and leave their argument in the same state), whatever the random draws.
\<close>

theorem C10_degree_one_noninterference:
  assumes "degree p = 1"
  shows "interactions_mat_to_cooccurrence_mat choice' obs_mat
           (p\<lparr>prune_ratio := a, decay := b, min_cooccurrence := c\<rparr>)
         = interactions_mat_to_cooccurrence_mat choice obs_mat p"
proof -
  have "first_degree_cooccurrence choice' (trans_func p) obs_mat (base_min_cooccurrence p)
      = first_degree_cooccurrence choice (trans_func p) obs_mat (base_min_cooccurrence p)"
    by (rule first_degree_choice)
  with assms show ?thesis
    by (simp add: interactions_mat_to_cooccurrence_mat_def split: prod.split sum.split)
qed

theorem C10_degree_one_noninterference_witness:
  "degree params_degree_one = 1
   \<and> interactions_mat_to_cooccurrence_mat first_n obs_one_user
       (params_degree_one\<lparr>prune_ratio := 0.9, decay := 0.1, min_cooccurrence := 7\<rparr>)
     = interactions_mat_to_cooccurrence_mat first_n obs_one_user params_degree_one"
proof -
  have d: "degree params_degree_one = 1"
    by (simp add: params_degree_one_def)
  show ?thesis
    using d C10_degree_one_noninterference[OF d, where a = "0.9" and b = "0.1" and c = 7
        and choice = first_n and choice' = first_n and obs_mat = obs_one_user]
    by simp
qed

section \<open>Stored values\<close>

lemma map_filter_map_option:
  "List.map_filter (\<lambda>j. map_option f (g j)) xs = map f (List.map_filter g xs)"
  by (induction xs) (auto split: option.splits)

lemma data_map_data: "data (map_data f m) = map f (data m)"
  by (simp add: data_def map_data_def map_filter_map_option map_concat comp_def)

lemma set_map_filter: "set (List.map_filter g xs) = {v. \<exists>x\<in>set xs. g x = Some v}"
  by (induction xs) (auto split: option.splits)

lemma set_data: "set (data m) = {v. \<exists>i<nrows m. \<exists>j<ncols m. cell m i j = Some v}"
  by (fastforce simp: data_def set_map_filter)

lemma cell_map_data: "cell (map_data f m) i j = map_option f (cell m i j)"
  by (simp add: map_data_def)

lemma shape_map_data: "nrows (map_data f m) = nrows m" "ncols (map_data f m) = ncols m"
  by (simp_all add: map_data_def)

section \<open>Rounding to double precision\<close>



















section \<open>The no-negatives shift\<close>

















section \<open>Pruning by a cutoff\<close>

lemma shape_threshold: "nrows (threshold m c) = nrows m" "ncols (threshold m c) = ncols m"
  by (simp_all add: threshold_def eliminate_zeros_def map_data_def)

lemma cell_threshold:
  "cell (threshold m c) i j =
     (case cell m i j of None \<Rightarrow> None | Some v \<Rightarrow> if v < c \<or> v = 0 then None else Some v)"
  by (cases "cell m i j") (auto simp: threshold_def eliminate_zeros_def map_data_def)

lemma val_threshold_keep: "cell m i j = Some v \<Longrightarrow> c \<le> v \<Longrightarrow> val (threshold m c) i j = v"
  by (simp add: val_def cell_threshold)

text \<open>
  Claim C8, amended. With \<open>ratio = 0\<close>: if \<open>cutoff = 0\<close> or the matrix has no stored entry
  at all (an explicitly stored zero counts as an entry), the matrix is returned as it is.
  Otherwise every stored entry below the cutoff and every stored zero is removed from
  storage, every other stored entry stays with its value, every entry at or above the
  cutoff still reads the same value, and the shape is unchanged.
\<close>

theorem C8_prune_cutoff:
  "((cutoff = 0 \<or> data m = []) \<longrightarrow> prune_mat choice m 0 cutoff = Inr m)
   \<and> (cutoff \<noteq> 0 \<and> data m \<noteq> [] \<longrightarrow>
        (\<exists>m'. prune_mat choice m 0 cutoff = Inr m'
           \<and> nrows m' = nrows m \<and> ncols m' = ncols m
           \<and> (\<forall>i j. cell m' i j =
                 (case cell m i j of
                    None \<Rightarrow> None
                  | Some v \<Rightarrow> if v < cutoff \<or> v = 0 then None else Some v))
           \<and> (\<forall>i j v. cell m i j = Some v \<and> cutoff \<le> v \<longrightarrow> val m' i j = v)))"
  by (auto simp: prune_mat_def shape_threshold cell_threshold val_threshold_keep)

lemma data_diag_zero: "data diag_zero = [0]"
  by (simp add: diag_zero_def sp_eval)

lemma data_threshold_diag_zero: "data (threshold diag_zero 2) = []"
  by (simp add: diag_zero_def sp_eval)

text \<open>
  The claim as stated fails for a matrix whose stored entries are all explicit zeros, as
  the builder has it for a single item after \<^verbatim>\<open>setdiag(0)\<close>: it has no stored nonzero
  entry, yet pruning with cutoff 2 does not return it unchanged.
\<close>

theorem C8_counterexample:
  "data diag_zero = [0] \<and> filter (\<lambda>v. v \<noteq> 0) (data diag_zero) = []
   \<and> (case prune_mat first_n diag_zero 0 2 of Inr m' \<Rightarrow> data m' = [] | Inl e \<Rightarrow> False)
   \<and> prune_mat first_n diag_zero 0 2 \<noteq> Inr diag_zero"
proof -
  have p: "prune_mat first_n diag_zero 0 2 = Inr (threshold diag_zero 2)"
    by (simp add: prune_mat_def data_diag_zero)
  have "threshold diag_zero 2 \<noteq> diag_zero"
    using data_diag_zero data_threshold_diag_zero by auto
  then show ?thesis
    by (simp add: p data_diag_zero data_threshold_diag_zero)
qed

theorem C8_prune_cutoff_witness:
  "prune_mat first_n (sp_of_rows 0 []) 0 2 = Inr (sp_of_rows 0 [])
   \<and> (case prune_mat first_n sim_three 0 2 of
         Inr m' \<Rightarrow> data m' = [2, 3, 2, 3] \<and> nrows m' = 3 \<and> ncols m' = 3 \<and> val m' 0 2 = 2
       | Inl e \<Rightarrow> False)"
proof -
  have d: "data sim_three = [1, 2, 1, 3, 2, 3]"
    by (simp add: sim_three_def sp_eval)
  have e: "data (sp_of_rows 0 []) = []"
    by (simp add: sp_eval)
  have c: "cell sim_three 0 2 = Some 2"
    by (simp add: sim_three_def sp_eval)
  have t: "data (threshold sim_three 2) = [2, 3, 2, 3]"
    by (simp add: sim_three_def sp_eval)
  from C8_prune_cutoff[of 2 "sp_of_rows 0 []" first_n] e
  have 1: "prune_mat first_n (sp_of_rows 0 []) 0 2 = Inr (sp_of_rows 0 [])" by simp
  from C8_prune_cutoff[of 2 sim_three first_n] d
  obtain m' where m': "prune_mat first_n sim_three 0 2 = Inr m'" "nrows m' = nrows sim_three"
    "ncols m' = ncols sim_three"
    "\<forall>i j v. cell sim_three i j = Some v \<and> 2 \<le> v \<longrightarrow> val m' i j = v"
    by auto
  have "m' = threshold sim_three 2"
    using m'(1) d by (simp add: prune_mat_def)
  with m' c t 1 show ?thesis
    by (simp add: sim_three_def sp_of_rows_def)
qed

section \<open>The weight of the higher-degree matrix\<close>





lemma nth_pair: "i < 2 \<Longrightarrow> [a, b] ! i = (if i = 0 then a else b)"
  by (cases i) auto

lemma first_degree_one_user:
  "fst (first_degree_cooccurrence first_n ''ones'' obs_one_user 1) = Inr cooc_one_user"
  apply (simp add: obs_one_user_def cooc_one_user_def first_degree_cooccurrence_def
      apply_trans_func_def astype_float32_def setdiag0_def matmul_def transpose_sp_def
      map_data_def sp_of_rows_def val_def fun_eq_iff)
  apply (auto simp: nth_pair)
  done





section \<open>What a fit does to the train matrix\<close>

lemma first_degree_snd:
  "snd (first_degree_cooccurrence choice tf mat mc) = trans_func_result tf mat"
  by (simp add: first_degree_cooccurrence_def apply_trans_func_def trans_func_result_def Let_def)

lemma builder_snd:
  "snd (interactions_mat_to_cooccurrence_mat choice obs_mat p) = trans_func_result (trans_func p) obs_mat"
proof -
  obtain res m' where fd:
    "first_degree_cooccurrence choice (trans_func p) obs_mat (base_min_cooccurrence p) = (res, m')"
    by (cases "first_degree_cooccurrence choice (trans_func p) obs_mat (base_min_cooccurrence p)")
  then have "m' = trans_func_result (trans_func p) obs_mat"
    using first_degree_snd[of choice "trans_func p" obs_mat "base_min_cooccurrence p"] by simp
  then show ?thesis
    using fd by (simp add: interactions_mat_to_cooccurrence_mat_def split: sum.splits)
qed

lemma ItemCooc_fit_train_mat:
  "train_mat (snd (ItemCoocRecommender_fit choice set_fit_params r train))
     = Some (trans_func_result (trans_func (set_fit_params (fit_params r))) train)"
proof -
  let ?p = "set_fit_params (fit_params r)"
  obtain res m' where b: "interactions_mat_to_cooccurrence_mat choice train ?p = (res, m')"
    by (cases "interactions_mat_to_cooccurrence_mat choice train ?p")
  then have "m' = trans_func_result (trans_func ?p) train"
    using builder_snd[of choice train ?p] by simp
  then show ?thesis
    using b by (cases res) (simp_all add: ItemCoocRecommender_fit_def prep_for_fit_def Let_def)
qed

lemma UserCooc_fit_train_mat:
  "train_mat (snd (UserCoocRecommender_fit choice set_fit_params r train)) = Some train"
  by (simp add: UserCoocRecommender_fit_def prep_for_fit_def Let_def split: sum.splits prod.splits)

text \<open>
  Claim C4, amended. The builder keeps the shape and the stored positions of the
  interaction matrix, and its stored values when \<open>trans_func\<close> is \<open>none\<close> (or is not
  recognised). With \<open>ones\<close> it replaces every stored value of its argument by 1, with
  \<open>log\<close> by \<open>log10(v + 1)\<close>: after \<^verbatim>\<open>ItemCoocRecommender.fit\<close>, which passes the stored
  train matrix itself, that is the train matrix of the recommender. After
  \<^verbatim>\<open>UserCoocRecommender.fit\<close>, which passes a transposed object, the train matrix is as
  it was built.
\<close>

theorem C4_train_mat_after_fit:
  "train_mat (snd (ItemCoocRecommender_fit choice set_fit_params r train))
     = Some (trans_func_result (trans_func (set_fit_params (fit_params r))) train)
   \<and> nrows (trans_func_result tf train) = nrows train
   \<and> ncols (trans_func_result tf train) = ncols train
   \<and> (\<forall>i j. (cell (trans_func_result tf train) i j = None) = (cell train i j = None))
   \<and> data (trans_func_result ''ones'' train) = map (\<lambda>v. 1) (data train)
   \<and> data (trans_func_result ''log'' train) = map (\<lambda>v. log 10 (v + 1)) (data train)
   \<and> (tf \<noteq> ''ones'' \<and> tf \<noteq> ''log'' \<longrightarrow> trans_func_result tf train = train)
   \<and> train_mat (snd (UserCoocRecommender_fit choice set_fit_params r train)) = Some train"
  by (simp add: ItemCooc_fit_train_mat UserCooc_fit_train_mat trans_func_result_def
      shape_map_data cell_map_data data_map_data)

lemma data_obs_weight_two: "data obs_weight_two = [2]"
  by (simp add: obs_weight_two_def sp_eval)

text \<open>
  The claim as stated fails for an interaction of weight 2 with the transform \<open>ones\<close>:
  after the fit the train matrix stores 1.
\<close>

theorem C4_counterexample:
  "map_option data (train_mat (snd (ItemCoocRecommender_fit first_n id (new_recommender params_degree_one) obs_weight_two)))
     = Some [1]
   \<and> data obs_weight_two = [2]"
  by (simp add: ItemCooc_fit_train_mat trans_func_result_def data_map_data data_obs_weight_two
      new_recommender_def params_degree_one_def)

theorem C4_train_mat_after_fit_witness:
  "map_option data (train_mat (snd (ItemCoocRecommender_fit first_n id
       (new_recommender (params_degree_one\<lparr>trans_func := ''none''\<rparr>)) obs_weight_two)))
     = Some [2]
   \<and> train_mat (snd (UserCoocRecommender_fit first_n id (new_recommender params_degree_one) obs_weight_two))
     = Some obs_weight_two"
  using C4_train_mat_after_fit[of first_n id "new_recommender (params_degree_one\<lparr>trans_func := ''none''\<rparr>)"
      obs_weight_two "''none''"]
    C4_train_mat_after_fit[of first_n id "new_recommender params_degree_one" obs_weight_two "''none''"]
  by (simp add: new_recommender_def data_obs_weight_two)

section \<open>Symmetry\<close>

lemma cell_add_transpose_sym:
  "cell (add_mat c (transpose_sp c)) i j = cell (add_mat c (transpose_sp c)) j i"
  by (auto simp: add_mat_def transpose_sp_def val_def Let_def add.commute)

lemma val_add_transpose_sym:
  "val (add_mat c (transpose_sp c)) i j = val (add_mat c (transpose_sp c)) j i"
  by (simp add: val_def cell_add_transpose_sym[of c i j])

lemma shape_prune_mat:
  "prune_mat choice m ratio cutoff = Inr m' \<Longrightarrow> nrows m' = nrows m \<and> ncols m' = ncols m"
  by (auto simp: prune_mat_def shape_threshold Let_def split: if_splits sum.splits option.splits)

lemma shape_higher_deg_step:
  "nrows (higher_deg_step d i h) = nrows h" "ncols (higher_deg_step d i h) = ncols h"
  by (simp_all add: higher_deg_step_def setdiag0_def add_mat_def)

lemma shape_fold_step:
  "nrows (fold (higher_deg_step d) is h) = nrows h \<and> ncols (fold (higher_deg_step d) is h) = ncols h"
  by (induction "is" arbitrary: h) (simp_all add: shape_higher_deg_step)

lemma shape_first_degree:
  assumes "fst (first_degree_cooccurrence choice tf mat mc) = Inr c"
  shows "nrows c = ncols mat \<and> ncols c = ncols mat"
proof -
  have sh: "nrows (trans_func_result tf mat) = nrows mat" "ncols (trans_func_result tf mat) = ncols mat"
    by (simp_all add: trans_func_result_def shape_map_data)
  from assms show ?thesis
    by (auto simp: first_degree_cooccurrence_def apply_trans_func_def Let_def astype_float32_def
        setdiag0_def matmul_def transpose_sp_def shape_map_data
        split: if_splits dest!: shape_prune_mat)
qed

lemma shape_builder:
  assumes "fst (interactions_mat_to_cooccurrence_mat choice obs_mat p) = Inr c"
  shows "nrows c = ncols obs_mat \<and> ncols c = ncols obs_mat"
proof -
  obtain res m' where fd:
    "first_degree_cooccurrence choice (trans_func p) obs_mat (base_min_cooccurrence p) = (res, m')"
    by (cases "first_degree_cooccurrence choice (trans_func p) obs_mat (base_min_cooccurrence p)")
  show ?thesis
  proof (cases res)
    case (Inl e)
    with fd assms show ?thesis by (simp add: interactions_mat_to_cooccurrence_mat_def)
  next
    case (Inr b)
    then have sb: "nrows b = ncols obs_mat \<and> ncols b = ncols obs_mat"
      using fd shape_first_degree[of choice "trans_func p" obs_mat "base_min_cooccurrence p" b] by simp
    from assms fd Inr obtain c0 where c0: "c = (if normalize_items p then normalize_l1 c0 else c0)"
      "c0 = b \<or> (\<exists>h. c0 = add_mat b h)"
      by (auto simp: interactions_mat_to_cooccurrence_mat_def split: if_splits sum.splits)
    then have "nrows c0 = nrows b \<and> ncols c0 = ncols b"
      by (auto simp: add_mat_def)
    with c0(1) sb show ?thesis by (simp add: normalize_l1_def)
  qed
qed


lemma ItemCooc_fit_cases:
  "(\<exists>e m'. interactions_mat_to_cooccurrence_mat choice train (set_fit_params (fit_params r)) = (Inl e, m')
       \<and> fst (ItemCoocRecommender_fit choice set_fit_params r train) = Some e)
   \<or> (\<exists>c m'. interactions_mat_to_cooccurrence_mat choice train (set_fit_params (fit_params r)) = (Inr c, m')
       \<and> fst (ItemCoocRecommender_fit choice set_fit_params r train) = None
       \<and> similarity_mat (snd (ItemCoocRecommender_fit choice set_fit_params r train))
            = Some (add_mat c (transpose_sp c)))"
proof -
  obtain res m' where b:
    "interactions_mat_to_cooccurrence_mat choice train (set_fit_params (fit_params r)) = (res, m')"
    by (cases "interactions_mat_to_cooccurrence_mat choice train (set_fit_params (fit_params r))")
  then show ?thesis
    by (cases res) (simp_all add: ItemCoocRecommender_fit_def prep_for_fit_def Let_def)
qed

lemma UserCooc_fit_cases:
  "(\<exists>e m'. interactions_mat_to_cooccurrence_mat choice (transpose_sp train) (set_fit_params (fit_params r)) = (Inl e, m')
       \<and> fst (UserCoocRecommender_fit choice set_fit_params r train) = Some e)
   \<or> (\<exists>c m'. interactions_mat_to_cooccurrence_mat choice (transpose_sp train) (set_fit_params (fit_params r)) = (Inr c, m')
       \<and> fst (UserCoocRecommender_fit choice set_fit_params r train) = None
       \<and> similarity_mat (snd (UserCoocRecommender_fit choice set_fit_params r train)) = Some c)"
proof -
  obtain res m' where b:
    "interactions_mat_to_cooccurrence_mat choice (transpose_sp train) (set_fit_params (fit_params r)) = (res, m')"
    by (cases "interactions_mat_to_cooccurrence_mat choice (transpose_sp train) (set_fit_params (fit_params r))")
  then show ?thesis
    by (cases res) (simp_all add: UserCoocRecommender_fit_def prep_for_fit_def Let_def)
qed

text \<open>
  Claim C6. After a successful \<^verbatim>\<open>ItemCoocRecommender.fit\<close> the similarity matrix is the
  builder's output \<open>c\<close> on the train matrix with its transpose added (\<open>c\<close> is square, so
  the two have one shape); it equals its own transpose, in its stored positions and in the
  values it reads. After a successful \<^verbatim>\<open>UserCoocRecommender.fit\<close> the similarity matrix is
  the builder's output on the transposed train matrix, with nothing added.
\<close>

theorem C6_symmetrization:
  "(fst (ItemCoocRecommender_fit choice set_fit_params r train) = None \<longrightarrow>
      (\<exists>c. fst (interactions_mat_to_cooccurrence_mat choice train (set_fit_params (fit_params r))) = Inr c
         \<and> similarity_mat (snd (ItemCoocRecommender_fit choice set_fit_params r train))
              = Some (add_mat c (transpose_sp c))
         \<and> nrows c = ncols c
         \<and> (\<forall>i j. cell (add_mat c (transpose_sp c)) i j = cell (add_mat c (transpose_sp c)) j i)
         \<and> (\<forall>i j. val (add_mat c (transpose_sp c)) i j = val (add_mat c (transpose_sp c)) j i)))
   \<and> (fst (UserCoocRecommender_fit choice set_fit_params r train) = None \<longrightarrow>
      (\<exists>c. fst (interactions_mat_to_cooccurrence_mat choice (transpose_sp train) (set_fit_params (fit_params r))) = Inr c
         \<and> similarity_mat (snd (UserCoocRecommender_fit choice set_fit_params r train)) = Some c))"
proof (intro conjI impI)
  assume ok: "fst (ItemCoocRecommender_fit choice set_fit_params r train) = None"
  with ItemCooc_fit_cases[of choice train set_fit_params r]
  obtain c m' where c:
    "interactions_mat_to_cooccurrence_mat choice train (set_fit_params (fit_params r)) = (Inr c, m')"
    "similarity_mat (snd (ItemCoocRecommender_fit choice set_fit_params r train))
       = Some (add_mat c (transpose_sp c))"
    by auto
  have "nrows c = ncols c"
    using shape_builder[of choice train "set_fit_params (fit_params r)" c] c(1) by simp
  with c show "\<exists>c. fst (interactions_mat_to_cooccurrence_mat choice train (set_fit_params (fit_params r))) = Inr c
         \<and> similarity_mat (snd (ItemCoocRecommender_fit choice set_fit_params r train))
              = Some (add_mat c (transpose_sp c))
         \<and> nrows c = ncols c
         \<and> (\<forall>i j. cell (add_mat c (transpose_sp c)) i j = cell (add_mat c (transpose_sp c)) j i)
         \<and> (\<forall>i j. val (add_mat c (transpose_sp c)) i j = val (add_mat c (transpose_sp c)) j i)"
    using cell_add_transpose_sym[of c] val_add_transpose_sym[of c] by auto
next
  assume ok: "fst (UserCoocRecommender_fit choice set_fit_params r train) = None"
  with UserCooc_fit_cases[of choice train set_fit_params r]
  show "\<exists>c. fst (interactions_mat_to_cooccurrence_mat choice (transpose_sp train) (set_fit_params (fit_params r))) = Inr c
         \<and> similarity_mat (snd (UserCoocRecommender_fit choice set_fit_params r train)) = Some c"
    by auto
qed

lemma builder_one_user:
  "fst (interactions_mat_to_cooccurrence_mat first_n obs_one_user params_degree_one) = Inr cooc_one_user"
proof -
  obtain res m' where fd: "first_degree_cooccurrence first_n ''ones'' obs_one_user 1 = (res, m')"
    by (cases "first_degree_cooccurrence first_n ''ones'' obs_one_user 1")
  with first_degree_one_user have "res = Inr cooc_one_user" by simp
  with fd show ?thesis
    by (simp add: interactions_mat_to_cooccurrence_mat_def params_degree_one_def)
qed

lemma data_sym_one_user: "data (add_mat cooc_one_user (transpose_sp cooc_one_user)) = [2, 2]"
  by (simp add: cooc_one_user_def sp_eval)

theorem C6_symmetrization_witness:
  "fst (ItemCoocRecommender_fit first_n id (new_recommender params_degree_one) obs_one_user) = None
   \<and> map_option data (similarity_mat (snd (ItemCoocRecommender_fit first_n id (new_recommender params_degree_one) obs_one_user)))
       = Some [2, 2]
   \<and> fst (UserCoocRecommender_fit first_n id (new_recommender params_degree_one) obs_one_user) = None
   \<and> map_option data (similarity_mat (snd (UserCoocRecommender_fit first_n id (new_recommender params_degree_one) obs_one_user)))
       = Some [0]"
proof -
  let ?r = "new_recommender params_degree_one"
  have p: "fit_params ?r = params_degree_one" by (simp add: new_recommender_def)
  have i: "fst (ItemCoocRecommender_fit first_n id ?r obs_one_user) = None"
    using ItemCooc_fit_cases[of first_n obs_one_user id ?r] builder_one_user by (auto simp: p)
  obtain res m' where b:
    "interactions_mat_to_cooccurrence_mat first_n (transpose_sp obs_one_user) params_degree_one = (res, m')"
    by (cases "interactions_mat_to_cooccurrence_mat first_n (transpose_sp obs_one_user) params_degree_one")
  have "case fst (interactions_mat_to_cooccurrence_mat first_n (transpose_sp obs_one_user)
                    params_degree_one) of
          Inr c \<Rightarrow> data c = [0] | Inl e \<Rightarrow> False"
    by (simp add: obs_one_user_def params_degree_one_def sp_eval)
  then obtain cu where cu: "res = Inr cu" "data cu = [0]"
    using b by (cases res) auto
  have u: "fst (UserCoocRecommender_fit first_n id ?r obs_one_user) = None"
    using UserCooc_fit_cases[of first_n obs_one_user id ?r] b cu by (auto simp: p)
  from C6_symmetrization[of first_n id ?r obs_one_user] i u builder_one_user b cu
  show ?thesis
    by (auto simp: p data_sym_one_user)
qed

section \<open>Row normalization\<close>

lemma val_nonneg: "stored_nonneg m \<Longrightarrow> 0 \<le> val m i j"
  by (auto simp: stored_nonneg_def val_def split: option.splits)

lemma val_nonneg_data:
  "\<forall>v\<in>set (data m). 0 \<le> v \<Longrightarrow> i < nrows m \<Longrightarrow> j < ncols m \<Longrightarrow> 0 \<le> val m i j"
  by (auto simp: set_data val_def split: option.splits)

lemma data_nonneg: "stored_nonneg m \<Longrightarrow> v \<in> set (data m) \<Longrightarrow> 0 \<le> v"
  by (auto simp: set_data stored_nonneg_def)

lemma sum_data_nonneg: "stored_nonneg m \<Longrightarrow> 0 \<le> sum_list (data m)"
  by (intro sum_list_nonneg) (auto dest: data_nonneg)

lemma nonneg_gram:
  assumes "\<forall>v\<in>set (data m). 0 \<le> v"
  shows "stored_nonneg (matmul (transpose_sp m) m)"
  unfolding stored_nonneg_def
proof (intro allI impI)
  fix i j v
  assume c: "cell (matmul (transpose_sp m) m) i j = Some v"
  then have r: "i < ncols m" "j < ncols m" and v: "v = (\<Sum>k<nrows m. val m k i * val m k j)"
    by (auto simp: matmul_def transpose_sp_def val_def Let_def split: if_splits)
  show "0 \<le> v"
    unfolding v using r assms by (intro sum_nonneg mult_nonneg_nonneg val_nonneg_data) auto
qed

lemma nonneg_matmul:
  assumes "stored_nonneg a" "stored_nonneg b"
  shows "stored_nonneg (matmul a b)"
  unfolding stored_nonneg_def
proof (intro allI impI)
  fix i j v
  assume "cell (matmul a b) i j = Some v"
  then have v: "v = (\<Sum>k<ncols a. val a i k * val b k j)"
    by (auto simp: matmul_def Let_def split: if_splits)
  show "0 \<le> v"
    unfolding v using assms by (intro sum_nonneg mult_nonneg_nonneg val_nonneg)
qed

lemma nonneg_add_mat:
  assumes "stored_nonneg a" "stored_nonneg b"
  shows "stored_nonneg (add_mat a b)"
  unfolding stored_nonneg_def
proof (intro allI impI)
  fix i j v
  assume "cell (add_mat a b) i j = Some v"
  then have "v = val a i j + val b i j"
    by (auto simp: add_mat_def Let_def split: if_splits)
  then show "0 \<le> v"
    using val_nonneg[OF assms(1), of i j] val_nonneg[OF assms(2), of i j] by simp
qed

lemma nonneg_setdiag0: "stored_nonneg m \<Longrightarrow> stored_nonneg (setdiag0 m)"
  by (auto simp: stored_nonneg_def setdiag0_def split: if_splits)

lemma nonneg_map_data:
  "stored_nonneg m \<Longrightarrow> (\<And>v. 0 \<le> v \<Longrightarrow> 0 \<le> f v) \<Longrightarrow> stored_nonneg (map_data f m)"
  by (auto simp: stored_nonneg_def map_data_def)

lemma nonneg_threshold: "stored_nonneg m \<Longrightarrow> stored_nonneg (threshold m c)"
  by (auto simp: stored_nonneg_def cell_threshold split: option.splits if_splits)

lemma nonneg_prune_mat:
  "stored_nonneg m \<Longrightarrow> prune_mat choice m ratio cutoff = Inr m' \<Longrightarrow> stored_nonneg m'"
  by (auto simp: prune_mat_def nonneg_threshold Let_def split: if_splits sum.splits option.splits)

lemma nonneg_higher_deg_step:
  assumes "stored_nonneg h" "0 \<le> d"
  shows "stored_nonneg (higher_deg_step d i h)"
  unfolding higher_deg_step_def scale_mat_def
  using assms
  by (intro nonneg_setdiag0 nonneg_add_mat nonneg_matmul nonneg_map_data) auto

lemma nonneg_fold_step:
  "stored_nonneg h \<Longrightarrow> 0 \<le> d \<Longrightarrow> stored_nonneg (fold (higher_deg_step d) is h)"
  by (induction "is" arbitrary: h) (simp_all add: nonneg_higher_deg_step)

lemma nonneg_rescale:
  assumes "stored_nonneg h" "0 \<le> w"
  shows "stored_nonneg (rescale w h)"
  unfolding rescale_def
proof (rule nonneg_map_data[OF assms(1)])
  fix v :: real
  assume "0 \<le> v"
  moreover have "0 \<le> w / (sum_list (data h) + 1)"
    using assms(2) sum_data_nonneg[OF assms(1)] by simp
  ultimately show "0 \<le> v * (w / (sum_list (data h) + 1))"
    by (rule mult_nonneg_nonneg)
qed

lemma nonneg_higher_deg_rescaled:
  assumes "stored_nonneg b" "0 \<le> decay p" "higher_deg_rescaled choice b p = Inr h"
  shows "stored_nonneg h"
proof -
  from assms(3) obtain h0 where h0:
    "prune_mat choice b (prune_ratio p) (min_cooccurrence p) = Inr h0"
    "h = rescale (sum_list (data b)) (fold (higher_deg_step (decay p)) [0..<nat (degree p - 1)] h0)"
    by (auto simp: higher_deg_rescaled_def higher_deg_cooc_def split: sum.splits)
  have "stored_nonneg h0" using assms(1) h0(1) by (rule nonneg_prune_mat)
  then show ?thesis
    unfolding h0(2) using assms(1,2)
    by (intro nonneg_rescale nonneg_fold_step sum_data_nonneg)
qed

lemma data_trans_func_result_nonneg:
  assumes "\<forall>v\<in>set (data m). 0 \<le> v"
  shows "\<forall>v\<in>set (data (trans_func_result tf m)). 0 \<le> v"
  using assms by (auto simp: trans_func_result_def data_map_data)

lemma nonneg_first_degree:
  assumes "\<forall>v\<in>set (data mat). 0 \<le> v"
    and "fst (first_degree_cooccurrence choice tf mat mc) = Inr c"
  shows "stored_nonneg c"
proof -
  let ?m = "trans_func_result tf mat"
  have g: "stored_nonneg (astype_float32 (setdiag0 (matmul (transpose_sp ?m) ?m)))"
    unfolding astype_float32_def
    by (intro nonneg_setdiag0 nonneg_gram data_trans_func_result_nonneg assms(1))
  have tf: "apply_trans_func tf mat = Inr ?m"
    using assms(2)
    by (auto simp: first_degree_cooccurrence_def apply_trans_func_def trans_func_result_def
        split: if_splits)
  show ?thesis
    using assms(2) g nonneg_prune_mat[OF g, of choice 0 mc c]
    by (auto simp: first_degree_cooccurrence_def tf Let_def split: if_splits)
qed


lemma higher_deg_rescaled_normalize_items:
  "higher_deg_rescaled choice b (p\<lparr>normalize_items := x\<rparr>) = higher_deg_rescaled choice b p"
  by (simp add: higher_deg_rescaled_def higher_deg_cooc_def split: sum.splits)

lemma builder_normalize:
  "fst (interactions_mat_to_cooccurrence_mat choice obs_mat p)
     = (case fst (interactions_mat_to_cooccurrence_mat choice obs_mat (p\<lparr>normalize_items := False\<rparr>)) of
          Inl e \<Rightarrow> Inl e
        | Inr c \<Rightarrow> Inr (if normalize_items p then normalize_l1 c else c))"
  by (simp add: interactions_mat_to_cooccurrence_mat_def higher_deg_rescaled_normalize_items
      split: prod.splits sum.splits)

lemma nonneg_builder_unnormalized:
  assumes "\<forall>v\<in>set (data obs_mat). 0 \<le> v"
    and "1 < degree p \<longrightarrow> 0 \<le> decay p"
    and "fst (interactions_mat_to_cooccurrence_mat choice obs_mat (p\<lparr>normalize_items := False\<rparr>)) = Inr c"
  shows "stored_nonneg c"
proof -
  obtain res m' where fd:
    "first_degree_cooccurrence choice (trans_func p) obs_mat (base_min_cooccurrence p) = (res, m')"
    by (cases "first_degree_cooccurrence choice (trans_func p) obs_mat (base_min_cooccurrence p)")
  show ?thesis
  proof (cases res)
    case (Inl e)
    with fd assms(3) show ?thesis by (simp add: interactions_mat_to_cooccurrence_mat_def)
  next
    case (Inr b)
    have nb: "stored_nonneg b"
      using nonneg_first_degree[OF assms(1), of choice "trans_func p" "base_min_cooccurrence p" b]
        fd Inr by simp
    show ?thesis
    proof (cases "1 < degree p")
      case False
      with assms(3) fd Inr nb show ?thesis
        by (simp add: interactions_mat_to_cooccurrence_mat_def)
    next
      case True
      with assms(3) fd Inr obtain h where h: "higher_deg_rescaled choice b p = Inr h"
        "c = add_mat b h"
        by (auto simp: interactions_mat_to_cooccurrence_mat_def higher_deg_rescaled_normalize_items
            split: sum.splits)
      have "stored_nonneg h"
        using nb True assms(2) h(1) by (intro nonneg_higher_deg_rescaled[of b p choice h]) auto
      with nb h(2) show ?thesis by (simp add: nonneg_add_mat)
    qed
  qed
qed

lemma val_normalize_l1:
  "val (normalize_l1 c) i j
     = (if row_abs_sum c i = 0 then val c i j else val c i j / row_abs_sum c i)"
  by (cases "cell c i j") (simp_all add: normalize_l1_def val_def)

lemma ncols_normalize_l1: "ncols (normalize_l1 c) = ncols c"
  by (simp add: normalize_l1_def)

lemma row_abs_sum_zero: "row_abs_sum c i = 0 \<longleftrightarrow> (\<forall>j<ncols c. val c i j = 0)"
  unfolding row_abs_sum_def by (subst sum_nonneg_eq_0_iff) auto

lemma row_sum_nonneg_abs: "stored_nonneg c \<Longrightarrow> row_sum c i = row_abs_sum c i"
  unfolding row_sum_def row_abs_sum_def
  by (intro sum.cong refl) (simp add: val_nonneg)

lemma row_sum_normalize_l1:
  assumes "stored_nonneg c" "row_abs_sum c i \<noteq> 0"
  shows "row_sum (normalize_l1 c) i = 1"
proof -
  have "row_sum (normalize_l1 c) i = (\<Sum>j<ncols c. val c i j / row_abs_sum c i)"
    using assms(2) by (simp add: row_sum_def ncols_normalize_l1 val_normalize_l1)
  also have "\<dots> = row_sum c i / row_abs_sum c i"
    by (simp add: row_sum_def sum_divide_distrib)
  also have "\<dots> = 1"
    using assms by (simp add: row_sum_nonneg_abs)
  finally show ?thesis .
qed

text \<open>
  Claim C7, amended. For an interaction matrix (its stored values are non-negative) and
  a decay that is not negative, a successful run of the builder with \<open>normalize_items\<close> returns
  the L1-normalized form \<open>m\<close> of the matrix \<open>c\<close> it would return without: every row with a
  nonzero entry (in \<open>c\<close>, or equivalently in \<open>m\<close>) sums to exactly 1 in \<open>m\<close>, and every row
  that is all zero in \<open>c\<close> is all zero in \<open>m\<close>.
\<close>

theorem C7_normalized_rows:
  assumes "\<forall>v\<in>set (data obs_mat). 0 \<le> v"
    and "1 < degree p \<longrightarrow> 0 \<le> decay p"
    and "normalize_items p"
    and "fst (interactions_mat_to_cooccurrence_mat choice obs_mat p) = Inr m"
  shows "\<exists>c. fst (interactions_mat_to_cooccurrence_mat choice obs_mat (p\<lparr>normalize_items := False\<rparr>)) = Inr c
           \<and> m = normalize_l1 c
           \<and> (\<forall>i. (\<exists>j<ncols c. val c i j \<noteq> 0) \<longrightarrow> row_sum m i = 1)
           \<and> (\<forall>i. (\<exists>j<ncols m. val m i j \<noteq> 0) \<longrightarrow> row_sum m i = 1)
           \<and> (\<forall>i. (\<forall>j<ncols c. val c i j = 0) \<longrightarrow> (\<forall>j<ncols m. val m i j = 0))"
proof -
  from assms(3,4) obtain c where c:
    "fst (interactions_mat_to_cooccurrence_mat choice obs_mat (p\<lparr>normalize_items := False\<rparr>)) = Inr c"
    "m = normalize_l1 c"
    by (subst (asm) builder_normalize) (auto split: sum.splits)
  have nn: "stored_nonneg c"
    using assms(1,2) c(1) by (rule nonneg_builder_unnormalized)
  have one: "row_sum m i = 1" if "\<exists>j<ncols c. val c i j \<noteq> 0" for i
    using that nn unfolding c(2) by (intro row_sum_normalize_l1) (auto simp: row_abs_sum_zero)
  have zero: "\<forall>j<ncols m. val m i j = 0" if "\<forall>j<ncols c. val c i j = 0" for i
    using that by (simp add: c(2) ncols_normalize_l1 val_normalize_l1)
  have one': "row_sum m i = 1" if "\<exists>j<ncols m. val m i j \<noteq> 0" for i
  proof -
    have "\<exists>j<ncols c. val c i j \<noteq> 0" using that zero[of i] by blast
    then show ?thesis by (rule one)
  qed
  from c one one' zero show ?thesis by blast
qed


lemma data_obs_idle_item: "data obs_idle_item = [1, 1]"
  by (simp add: obs_idle_item_def sp_eval)

lemma builder_idle_item:
  "(case fst (interactions_mat_to_cooccurrence_mat first_n obs_idle_item params_normalize) of
      Inr m \<Rightarrow> ncols m = 3 \<and> val m 0 1 = 1 \<and> val m 1 0 = 1
        \<and> val m 2 0 = 0 \<and> val m 2 1 = 0 \<and> val m 2 2 = 0
    | Inl e \<Rightarrow> False)"
  by (simp add: obs_idle_item_def params_normalize_def params_degree_one_def sp_eval
      normalize_l1_def row_abs_sum_def)

theorem C7_normalized_rows_witness:
  "(case fst (interactions_mat_to_cooccurrence_mat first_n obs_idle_item params_normalize) of
      Inr m \<Rightarrow> row_sum m 0 = 1 \<and> row_sum m 1 = 1
        \<and> val m 2 0 = 0 \<and> val m 2 1 = 0 \<and> val m 2 2 = 0
    | Inl e \<Rightarrow> False)"
proof -
  from builder_idle_item obtain m where m:
    "fst (interactions_mat_to_cooccurrence_mat first_n obs_idle_item params_normalize) = Inr m"
    "ncols m = 3" "val m 0 1 = 1" "val m 1 0 = 1" "val m 2 0 = 0" "val m 2 1 = 0" "val m 2 2 = 0"
    by (auto split: sum.splits)
  have a: "\<forall>v\<in>set (data obs_idle_item). 0 \<le> v" by (simp add: data_obs_idle_item)
  have b: "1 < degree params_normalize \<longrightarrow> 0 \<le> decay params_normalize"
    by (simp add: params_normalize_def params_degree_one_def)
  have c: "normalize_items params_normalize" by (simp add: params_normalize_def)
  from C7_normalized_rows[OF a b c m(1)]
  have r: "\<forall>i. (\<exists>j<ncols m. val m i j \<noteq> 0) \<longrightarrow> row_sum m i = 1" by blast
  have "\<exists>j<ncols m. val m 0 j \<noteq> 0" using m(2,3) by (intro exI[of _ 1]) simp
  then have r0: "row_sum m 0 = 1" using r by blast
  have "\<exists>j<ncols m. val m 1 j \<noteq> 0" using m(2,4) by (intro exI[of _ 0]) simp
  then have r1: "row_sum m 1 = 1" using r by blast
  show ?thesis using m r0 r1 by simp
qed

subsection \<open>A negative decay\<close>

lemma first_degree_three:
  "fst (first_degree_cooccurrence first_n ''ones'' obs_three_items 1) = Inr cooc_three"
  apply (simp add: obs_three_items_def cooc_three_def first_degree_cooccurrence_def
      apply_trans_func_def astype_float32_def setdiag0_def matmul_def transpose_sp_def
      map_data_def sp_of_rows_def val_def fun_eq_iff)
  apply (auto simp: nth_Cons' less_Suc_eq)
  done


lemma data_cooc_three: "data cooc_three = [0, 1, 1, 1, 0, 1, 1, 1, 0]"
  by (simp add: cooc_three_def sp_eval)

lemma data_higher_three:
  "data (higher_deg_step (- (11 / 10)) 0 (threshold cooc_three 1))
     = [0, - 1 / 10, - 1 / 10, - 1 / 10, 0, - 1 / 10, - 1 / 10, - 1 / 10, 0]"
  by (simp add: cooc_three_def sp_eval)


lemma sum_below_three: "(\<Sum>j<3. f j) = f 0 + f (Suc 0) + (f 2 :: real)"
  by (simp add: lessThan_Suc eval_nat_numeral)

lemma row_higher_three:
  "cell (higher_deg_step (- (11 / 10)) 0 (threshold cooc_three 1)) 0 0 = Some 0"
  "cell (higher_deg_step (- (11 / 10)) 0 (threshold cooc_three 1)) 0 (Suc 0) = Some (- 1 / 10)"
  "cell (higher_deg_step (- (11 / 10)) 0 (threshold cooc_three 1)) 0 2 = Some (- 1 / 10)"
  by (simp_all add: cooc_three_def sp_eval)

lemma row_cooc_three:
  "cell cooc_three 0 0 = Some 0" "cell cooc_three 0 (Suc 0) = Some 1" "cell cooc_three 0 2 = Some 1"
  "ncols cooc_three = 3"
  by (simp_all add: cooc_three_def sp_of_rows_def)

lemma higher_deg_cooc_three:
  "higher_deg_cooc first_n cooc_three params_negative_decay
     = Inr (higher_deg_step (- (11 / 10)) 0 (threshold cooc_three 1))"
  by (simp add: higher_deg_cooc_def prune_mat_def data_cooc_three params_negative_decay_def)

lemma builder_three:
  "fst (interactions_mat_to_cooccurrence_mat first_n obs_three_items params_negative_decay)
     = Inr (normalize_l1 (add_mat cooc_three
              (rescale 6 (higher_deg_step (- (11 / 10)) 0 (threshold cooc_three 1)))))"
proof -
  obtain res m' where fd: "first_degree_cooccurrence first_n ''ones'' obs_three_items 1 = (res, m')"
    by (cases "first_degree_cooccurrence first_n ''ones'' obs_three_items 1")
  with first_degree_three have r: "res = Inr cooc_three" by simp
  have p: "trans_func params_negative_decay = ''ones''"
    "base_min_cooccurrence params_negative_decay = 1" "degree params_negative_decay = 2"
    "normalize_items params_negative_decay"
    by (simp_all add: params_negative_decay_def)
  show ?thesis
    by (simp add: interactions_mat_to_cooccurrence_mat_def p fd r higher_deg_rescaled_def
        higher_deg_cooc_three data_cooc_three)
qed

lemma row_normalized_three:
  "val (normalize_l1 (add_mat cooc_three
          (rescale 6 (higher_deg_step (- (11 / 10)) 0 (threshold cooc_three 1))))) 0 0 = 0"
  "val (normalize_l1 (add_mat cooc_three
          (rescale 6 (higher_deg_step (- (11 / 10)) 0 (threshold cooc_three 1))))) 0 (Suc 0) = - 1 / 2"
  "val (normalize_l1 (add_mat cooc_three
          (rescale 6 (higher_deg_step (- (11 / 10)) 0 (threshold cooc_three 1))))) 0 2 = - 1 / 2"
  by (simp_all add: normalize_l1_def row_abs_sum_def add_mat_def rescale_def map_data_def val_def
      row_higher_three row_cooc_three data_higher_three sum_below_three Let_def)

text \<open>
  The claim as stated fails for a negative decay: for one user with three items, degree 2
  and decay -1.1 the matrix before normalization has the entries -1/2 off the diagonal,
  and the first row of the returned matrix sums to -1.
\<close>

theorem C7_counterexample:
  "(case fst (interactions_mat_to_cooccurrence_mat first_n obs_three_items params_negative_decay) of
      Inr m \<Rightarrow> val m 0 1 = - 1 / 2 \<and> row_sum m 0 = - 1
    | Inl e \<Rightarrow> False)"
proof -
  define m where "m = normalize_l1 (add_mat cooc_three
      (rescale 6 (higher_deg_step (- (11 / 10)) 0 (threshold cooc_three 1))))"
  have v: "val m 0 0 = 0" "val m 0 (Suc 0) = - 1 / 2" "val m 0 2 = - 1 / 2"
    unfolding m_def by (rule row_normalized_three)+
  have nc: "ncols m = 3"
    by (simp add: m_def ncols_normalize_l1 add_mat_def row_cooc_three)
  have "row_sum m 0 = val m 0 0 + val m 0 (Suc 0) + val m 0 2"
    by (simp add: row_sum_def nc sum_below_three)
  with v have "row_sum m 0 = - 1" by simp
  moreover have "fst (interactions_mat_to_cooccurrence_mat first_n obs_three_items
      params_negative_decay) = Inr m"
    unfolding m_def by (rule builder_three)
  ultimately show ?thesis using v(2) by simp
qed

section \<open>Top-K ranking\<close>

lemma index_perm_set:
  assumes "is_index_perm n p"
  shows "set p = {..<n}"
proof -
  from assms have l: "length p = n" and d: "distinct p" and r: "set p \<subseteq> {..<n}"
    by (auto simp: is_index_perm_def list_all_iff)
  have "card (set p) = card {..<n}" using l d by (simp add: distinct_card)
  with r show ?thesis by (intro card_subset_eq) auto
qed

lemma argsort_by_sort_ok: "is_argsort b (argsort_by_sort b)"
  by (simp add: is_argsort_def is_index_perm_def argsort_by_sort_def list_all_iff)

lemma argpartition_by_sort_ok:
  assumes "b = [] \<or> kth < length b"
  shows "is_argpartition b kth (argpartition_by_sort b kth)"
proof -
  let ?p = "argsort_by_sort b"
  have s: "sorted (map (\<lambda>i. b ! i) ?p)" and p: "is_index_perm (length b) ?p"
    using argsort_by_sort_ok[of b] by (auto simp: is_argsort_def)
  have l: "length ?p = length b" using p by (simp add: is_index_perm_def)
  have le: "b ! (?p ! i) \<le> b ! (?p ! j)" if "i \<le> j" "j < length b" for i j
    using sorted_nth_mono[OF s, of i j] that l by simp
  show ?thesis
    unfolding is_argpartition_def argpartition_by_sort_def list_all_iff
    using assms p le by auto
qed

lemma sorted_neg_desc:
  "sorted (map (\<lambda>t. - f t) q) = sorted_wrt (\<ge>) (map (f :: 'a \<Rightarrow> real) q)"
  by (simp add: sorted_wrt_map)

lemma partition_sort_spec:
  assumes kn: "k \<le> length a"
    and P: "is_argpartition a (if k = 0 then 0 else length a - k)
              (ap a (if k = 0 then 0 else length a - k))"
    and S: "\<And>b. is_argsort b (asort b)"
  shows "\<exists>idx. partition_sort ap asort a k = Inr (idx, map (\<lambda>i. a ! i) idx)
           \<and> length idx = k \<and> distinct idx \<and> (\<forall>i\<in>set idx. i < length a)
           \<and> sorted_wrt (\<ge>) (map (\<lambda>i. a ! i) idx)
           \<and> (\<forall>j<length a. j \<notin> set idx \<longrightarrow> (\<forall>i\<in>set idx. a ! j \<le> a ! i))"
proof (cases "k = 0")
  case True
  let ?p = "ap a 0"
  have perm: "is_index_perm (length a) ?p" using P True by (simp add: is_argpartition_def)
  have neg: "argpartition_neg ap a 0 = Inr ?p"
    by (cases "a = []") (simp_all add: argpartition_neg_def)
  have "\<not> (\<exists>i\<in>set ?p. length a \<le> i)" using index_perm_set[OF perm] by auto
  then have "partition_sort ap asort a 0 = Inr ([], [])"
    using neg by (simp add: partition_sort_def slice_last_def Let_def)
  with True show ?thesis by simp
next
  case False
  define kth where "kth = length a - k"
  define p where "p = ap a kth"
  have kth: "kth < length a" "kth + k = length a" using kn False by (auto simp: kth_def)
  have perm: "is_index_perm (length a) p"
    and part: "\<forall>i<length a. (i < kth \<longrightarrow> a ! (p ! i) \<le> a ! (p ! kth))
                             \<and> (kth < i \<longrightarrow> a ! (p ! kth) \<le> a ! (p ! i))"
    using P False by (auto simp: is_argpartition_def p_def kth_def list_all_iff)
  have lp: "length p = length a" and dp: "distinct p"
    using perm by (auto simp: is_index_perm_def)
  have sp: "set p = {..<length a}" using perm by (rule index_perm_set)
  have neg: "argpartition_neg ap a k = Inr p"
    using False kn kth by (auto simp: argpartition_neg_def p_def kth_def Let_def nat_diff_distrib')
  define i_part where "i_part = drop kth p"
  have sl: "slice_last p k = i_part"
    using False by (simp add: slice_last_def lp kth_def i_part_def)
  have li: "length i_part = k" using kth by (simp add: i_part_def lp)
  have di: "distinct i_part" using dp by (simp add: i_part_def)
  have si: "set i_part \<subseteq> {..<length a}"
    using sp set_drop_subset[of kth p] by (auto simp: i_part_def)
  define b where "b = map (\<lambda>i. - (a ! i)) i_part"
  define q where "q = asort b"
  have qperm: "is_index_perm k q" and qs: "sorted (map (\<lambda>t. b ! t) q)"
    using S[of b] by (auto simp: is_argsort_def q_def b_def li)
  have lq: "length q = k" and dq: "distinct q"
    using qperm by (auto simp: is_index_perm_def)
  have sq: "set q = {..<k}" using qperm by (rule index_perm_set)
  define idx where "idx = map (\<lambda>t. i_part ! t) q"
  have res: "partition_sort ap asort a k = Inr (idx, map (\<lambda>i. a ! i) idx)"
    using si sq li lq
    by (auto simp: partition_sort_def neg sl Let_def idx_def b_def[symmetric] q_def[symmetric])
  have "set idx = (\<lambda>t. i_part ! t) ` {..<length i_part}"
    by (simp add: idx_def sq li)
  also have "\<dots> = set i_part"
    by (fastforce simp: in_set_conv_nth)
  finally have set_idx: "set idx = set i_part" .
  have d_idx: "distinct idx"
    unfolding idx_def distinct_map
    using dq sq li di by (auto simp: inj_on_def nth_eq_iff_index_eq)
  have "map (\<lambda>t. b ! t) q = map (\<lambda>t. - (a ! (i_part ! t))) q"
    using sq li by (intro map_cong refl) (simp add: b_def)
  with qs have "sorted_wrt (\<ge>) (map (\<lambda>t. a ! (i_part ! t)) q)"
    by (simp add: sorted_neg_desc)
  then have srt: "sorted_wrt (\<ge>) (map (\<lambda>i. a ! i) idx)"
    by (simp add: idx_def comp_def)
  have top: "a ! j \<le> a ! i" if "j < length a" "j \<notin> set idx" "i \<in> set idx" for i j
  proof -
    from that(1) sp obtain t where t: "t < length p" "p ! t = j"
      by (metis in_set_conv_nth lessThan_iff)
    have "t < kth"
    proof (rule ccontr)
      assume "\<not> t < kth"
      then have "j \<in> set (drop kth p)"
        using t by (auto simp: in_set_conv_nth intro!: exI[of _ "t - kth"])
      with that(2) set_idx show False by (simp add: i_part_def)
    qed
    from that(3) set_idx obtain u where u: "u < length i_part" "i_part ! u = i"
      by (metis in_set_conv_nth)
    then have iu: "i = p ! (kth + u)" "kth + u < length a"
      using li kth by (auto simp: i_part_def lp)
    have "a ! (p ! t) \<le> a ! (p ! kth)" using part \<open>t < kth\<close> t(1) lp by auto
    moreover have "a ! (p ! kth) \<le> a ! (p ! (kth + u))"
      using part iu(2) by (cases "u = 0") auto
    ultimately show ?thesis using t(2) iu(1) by simp
  qed
  show ?thesis
    using res lq srt d_idx top si set_idx by (auto simp: idx_def)
qed


lemma mset_filter_split:
  "mset (filter P xs) + mset (filter (\<lambda>j. \<not> P j) xs) = mset xs"
  by (induction xs) auto

lemma top_scores_brute_force:
  assumes d: "distinct idx" and r: "\<forall>i\<in>set idx. i < length a"
    and srt: "sorted_wrt (\<ge>) (map (\<lambda>i. a ! i) idx)"
    and top: "\<forall>j<length a. j \<notin> set idx \<longrightarrow> (\<forall>i\<in>set idx. a ! j \<le> a ! i)"
  shows "map (\<lambda>i. a ! i) idx = take (length idx) (rev (sort (a :: real list)))"
proof -
  define rest where "rest = filter (\<lambda>j. j \<notin> set idx) [0..<length a]"
  define full where "full = map (\<lambda>i. a ! i) idx @ rev (sort (map (\<lambda>i. a ! i) rest))"
  have "mset idx = mset (filter (\<lambda>j. j \<in> set idx) [0..<length a])"
    using d r by (intro set_eq_iff_mset_eq_distinct[THEN iffD1]) auto
  then have "mset idx + mset rest = mset [0..<length a]"
    unfolding rest_def by (simp only: mset_filter_split)
  then have "image_mset (\<lambda>i. a ! i) (mset idx + mset rest) = mset (map (\<lambda>i. a ! i) [0..<length a])"
    by simp
  then have m: "mset (rev full) = mset a"
    by (simp add: full_def map_nth add.commute)
  have cross: "x \<le> y" if "x \<in> set (map (\<lambda>i. a ! i) rest)" "y \<in> set (map (\<lambda>i. a ! i) idx)" for x y
    using that top by (auto simp: rest_def)
  have "sorted (rev (map (\<lambda>i. a ! i) idx))"
    using srt by (simp add: sorted_wrt_rev)
  then have s: "sorted (rev full)"
    using cross by (auto simp: full_def sorted_append)
  have "sort a = rev full"
    using m s by (rule properties_for_sort)
  then have "rev (sort a) = full" by simp
  then show ?thesis by (simp add: full_def)
qed

lemma length_sum_simils_of: "length (sum_simils_of s item_inds remove_self) = ncols s"
  by (simp add: sum_simils_of_def zero_at_def column_sums_def)

lemma nth_sum_simils_of:
  "j < ncols s \<Longrightarrow>
   sum_simils_of s item_inds remove_self ! j
     = (if remove_self \<and> j \<in> set item_inds then 0 else (\<Sum>i\<leftarrow>item_inds. val s i j))"
  by (simp add: sum_simils_of_def zero_at_def column_sums_def)

text \<open>
  Claim C1, amended. For seed indices in range and functions that meet the contracts of
  \<^verbatim>\<open>np.argpartition\<close> and \<^verbatim>\<open>np.argsort\<close>, the ranking returns exactly
  \<open>k' = min k (number of columns)\<close> distinct column indices with their scores. The score
  of a column is the sum of the seed rows in that column, set to zero at the seeds' own
  positions when \<open>remove_self\<close> is set (the default). The returned scores are in
  descending order, no column left out scores higher than a returned one, and the scores
  are the first \<open>k'\<close> of the score vector sorted in descending order.
\<close>

theorem C1_top_k_ranking:
  assumes rows: "\<forall>i\<in>set item_inds. i < nrows s"
    and cols: "remove_self \<longrightarrow> (\<forall>i\<in>set item_inds. i < ncols s)"
    and P: "\<forall>b kth. b = [] \<or> kth < length b \<longrightarrow> is_argpartition b kth (ap b kth)"
    and S: "\<forall>b. is_argsort b (asort b)"
  shows "\<exists>idx sc. recommend_for_item_inds ap asort s item_inds k remove_self = Inr (idx, sc)
           \<and> length idx = min k (ncols s) \<and> length sc = min k (ncols s)
           \<and> distinct idx \<and> (\<forall>i\<in>set idx. i < ncols s)
           \<and> sc = map (\<lambda>j. if remove_self \<and> j \<in> set item_inds then 0
                             else (\<Sum>i\<leftarrow>item_inds. val s i j)) idx
           \<and> sorted_wrt (\<ge>) sc
           \<and> (\<forall>j<ncols s. j \<notin> set idx \<longrightarrow>
                 (\<forall>i\<in>set idx. sum_simils_of s item_inds remove_self ! j
                               \<le> sum_simils_of s item_inds remove_self ! i))
           \<and> sc = take (min k (ncols s)) (rev (sort (sum_simils_of s item_inds remove_self)))"
proof -
  define a where "a = sum_simils_of s item_inds remove_self"
  define k' where "k' = min k (ncols s)"
  have la: "length a = ncols s" by (simp add: a_def length_sum_simils_of)
  have kn: "k' \<le> length a" by (simp add: k'_def la)
  have "a = [] \<or> (if k' = 0 then 0 else length a - k') < length a"
    using kn by (cases a) auto
  with P have P': "is_argpartition a (if k' = 0 then 0 else length a - k')
              (ap a (if k' = 0 then 0 else length a - k'))"
    by blast
  from partition_sort_spec[where k = k' and a = a and ap = ap and asort = asort, OF kn P'] S
  obtain idx where idx: "partition_sort ap asort a k' = Inr (idx, map (\<lambda>i. a ! i) idx)"
    "length idx = k'" "distinct idx" "\<forall>i\<in>set idx. i < length a"
    "sorted_wrt (\<ge>) (map (\<lambda>i. a ! i) idx)"
    "\<forall>j<length a. j \<notin> set idx \<longrightarrow> (\<forall>i\<in>set idx. a ! j \<le> a ! i)"
    by blast
  have bf: "map (\<lambda>i. a ! i) idx = take k' (rev (sort a))"
    using top_scores_brute_force[OF idx(3,4,5,6)] idx(2) by simp
  have sem: "map (\<lambda>i. a ! i) idx
      = map (\<lambda>j. if remove_self \<and> j \<in> set item_inds then 0 else (\<Sum>i\<leftarrow>item_inds. val s i j)) idx"
    using idx(4) la by (intro map_cong refl) (simp add: a_def nth_sum_simils_of)
  have res: "recommend_for_item_inds ap asort s item_inds k remove_self
               = Inr (idx, map (\<lambda>i. a ! i) idx)"
    using rows cols idx(1)
    by (auto simp: recommend_for_item_inds_def Let_def a_def[symmetric] la k'_def[symmetric]
        not_le[symmetric])
  show ?thesis
    using res idx(2,3,4,5,6) bf sem kn
    unfolding a_def[symmetric] k'_def[symmetric] la
    by (intro exI[of _ idx] exI[of _ "map (\<lambda>i. a ! i) idx"]) (simp add: la)
qed


lemma shape_sim_three: "nrows sim_three = 3" "ncols sim_three = 3"
  by (simp_all add: sim_three_def sp_of_rows_def)

lemma column_sums_sim_three: "column_sums sim_three [0, 2] = [2, 4, 2]"
  by (simp add: column_sums_def sim_three_def sp_of_rows_def val_def upt_rec)

lemma sum_simils_sim_three: "sum_simils_of sim_three [0, 2] True = [0, 4, 0]"
  by (simp add: sum_simils_of_def column_sums_sim_three zero_at_def upt_rec)

lemma partition_sort_example:
  "partition_sort argpartition_by_sort argsort_by_sort [0, 4, 0] (Suc (Suc 0)) = Inr ([1, 2], [4, 0])"
  by (simp add: partition_sort_def argpartition_neg_def argpartition_by_sort_def
      argsort_by_sort_def slice_last_def sort_key_def upt_rec Let_def)

lemma recommend_sim_three:
  "recommend_for_item_inds argpartition_by_sort argsort_by_sort sim_three [0, 2] 2 True
     = Inr ([1, 2], [4, 0])"
  by (simp add: recommend_for_item_inds_def sum_simils_sim_three partition_sort_example
      shape_sim_three)

text \<open>
  The claim as stated takes the column sums themselves as the scores. With the seeds 0 and
  2 and the default \<open>remove_self\<close> the column sums are 2, 4, 2 and their two largest are 4
  and 2, but the ranking returns the scores 4 and 0.
\<close>

theorem C1_counterexample:
  "column_sums sim_three [0, 2] = [2, 4, 2]
   \<and> take 2 (rev (sort (column_sums sim_three [0, 2]))) = [4, 2]
   \<and> map_sum id snd (recommend_for_item_inds argpartition_by_sort argsort_by_sort sim_three [0, 2] 2 True)
       = Inr [4, 0]"
  by (simp add: column_sums_sim_three recommend_sim_three sort_key_def)

theorem C1_top_k_ranking_witness:
  "recommend_for_item_inds argpartition_by_sort argsort_by_sort sim_three [0, 2] 2 True
     = Inr ([1, 2], [4, 0])
   \<and> [4, 0] = take (min 2 (ncols sim_three)) (rev (sort (sum_simils_of sim_three [0, 2] True)))"
proof -
  have rows: "\<forall>i\<in>set [0, 2]. i < nrows sim_three"
    by (simp add: shape_sim_three)
  have cols: "True \<longrightarrow> (\<forall>i\<in>set [0, 2]. i < ncols sim_three)"
    by (simp add: shape_sim_three)
  have P: "\<forall>b kth. b = [] \<or> kth < length b \<longrightarrow> is_argpartition b kth (argpartition_by_sort b kth)"
    by (simp add: argpartition_by_sort_ok)
  have S: "\<forall>b. is_argsort b (argsort_by_sort b)"
    by (simp add: argsort_by_sort_ok)
  from C1_top_k_ranking[OF rows cols P S, of 2] recommend_sim_three
  show ?thesis by auto
qed

section \<open>The shift before a query\<close>















end
